theory Spec2Isabelle
  imports Main "HOL-Library.Sublist"
begin

section \<open>Strings\<close>

text \<open>
  A Python \<open>str\<close> is a sequence of Unicode code points. The manuscript is written in
  Georgian script, which does not fit the 8-bit \<open>char\<close> of HOL, so a string is the list
  of its code points.
\<close>

type_synonym ustring = "nat list"

text \<open>ASCII literals of the source (tags, attribute names, type words) are written \<open>asc ''...''\<close>.\<close>

definition asc :: "string \<Rightarrow> ustring" where
  "asc s = map of_char s"

text \<open>The Mkhedruli letters that occur in the literals of the source (U+10D0 ...).\<close>

abbreviation "G_an \<equiv> (4304::nat)"
abbreviation "G_ban \<equiv> (4305::nat)"
abbreviation "G_gan \<equiv> (4306::nat)"
abbreviation "G_don \<equiv> (4307::nat)"
abbreviation "G_en \<equiv> (4308::nat)"
abbreviation "G_vin \<equiv> (4309::nat)"
abbreviation "G_tan \<equiv> (4311::nat)"
abbreviation "G_in \<equiv> (4312::nat)"
abbreviation "G_kan \<equiv> (4313::nat)"
abbreviation "G_las \<equiv> (4314::nat)"
abbreviation "G_man \<equiv> (4315::nat)"
abbreviation "G_nar \<equiv> (4316::nat)"
abbreviation "G_on \<equiv> (4317::nat)"
abbreviation "G_par \<equiv> (4318::nat)"
abbreviation "G_rae \<equiv> (4320::nat)"
abbreviation "G_san \<equiv> (4321::nat)"
abbreviation "G_tar \<equiv> (4322::nat)"
abbreviation "G_un \<equiv> (4323::nat)"
abbreviation "G_khar \<equiv> (4325::nat)"
abbreviation "G_ghan \<equiv> (4326::nat)"
abbreviation "G_shin \<equiv> (4328::nat)"
abbreviation "G_can \<equiv> (4330::nat)"
abbreviation "G_jil \<equiv> (4331::nat)"
abbreviation "G_char \<equiv> (4333::nat)"
abbreviation "G_xan \<equiv> (4334::nat)"
abbreviation "G_jhan \<equiv> (4335::nat)"

text \<open>\<open>s.endswith(e)\<close> and \<open>e in s\<close> (substring test) of Python.\<close>

definition endswith :: "ustring \<Rightarrow> ustring \<Rightarrow> bool" where
  "endswith s e = suffix e s"

definition contains :: "ustring \<Rightarrow> ustring \<Rightarrow> bool" where
  "contains s e = sublist e s"

section \<open>Morphological classifier\<close>

text \<open>
  \<open>patronymic_endings\<close> is the list that \<open>is_patronymic\<close> and \<open>is_actual_place\<close> both
  spell out: -shvili, -sdze, -idze, -dze, -isshvili, -anisdze, -et, -eti, -aet, -iet,
  -uet, -ant, -int.
\<close>

definition patronymic_endings :: "ustring list" where
  "patronymic_endings =
    [[G_shin, G_vin, G_in, G_las, G_in], [G_san, G_jil, G_en], [G_in, G_jil, G_en],
     [G_jil, G_en], [G_in, G_san, G_shin, G_vin, G_in, G_las, G_in],
     [G_an, G_nar, G_in, G_san, G_jil, G_en],
     [G_en, G_tan], [G_en, G_tan, G_in], [G_an, G_en, G_tan], [G_in, G_en, G_tan],
     [G_un, G_en, G_tan],
     [G_an, G_nar, G_tan], [G_in, G_nar, G_tan]]"

text \<open>-adze, -avadze, -eli.\<close>

definition surname_endings :: "ustring list" where
  "surname_endings =
    [[G_an, G_jil, G_en], [G_an, G_vin, G_an, G_jil, G_en], [G_en, G_las, G_in]]"

text \<open>
  The curated list of \<open>is_actual_place\<close>, in source order: Mtskheta, Tbilisi, Kutaisi,
  Batumi, Khani, Svaneti, Imereti, Kakheti, Samegrelo, Guria, Achara, Tao, Klarjeti,
  Tbeti, Oshki, Khakhuli.
\<close>

definition P_mtskheta :: ustring where "P_mtskheta = [G_man, G_can, G_xan, G_en, G_tan, G_an]"
definition P_tbilisi :: ustring where "P_tbilisi = [G_tan, G_ban, G_in, G_las, G_in, G_san, G_in]"
definition P_kutaisi :: ustring where "P_kutaisi = [G_khar, G_un, G_tan, G_an, G_in, G_san, G_in]"
definition P_batumi :: ustring where "P_batumi = [G_ban, G_an, G_tan, G_un, G_man, G_in]"
definition P_khani :: ustring where "P_khani = [G_xan, G_an, G_nar, G_in]"
definition P_svaneti :: ustring where "P_svaneti = [G_san, G_vin, G_an, G_nar, G_en, G_tan, G_in]"
definition P_imereti :: ustring where "P_imereti = [G_in, G_man, G_en, G_rae, G_en, G_tan, G_in]"
definition P_kakheti :: ustring where "P_kakheti = [G_kan, G_an, G_xan, G_en, G_tan, G_in]"
definition P_samegrelo :: ustring where
  "P_samegrelo = [G_san, G_an, G_man, G_en, G_gan, G_rae, G_en, G_las, G_on]"
definition P_guria :: ustring where "P_guria = [G_gan, G_un, G_rae, G_in, G_an]"
definition P_achara :: ustring where "P_achara = [G_an, G_char, G_an, G_rae, G_an]"
definition P_tao :: ustring where "P_tao = [G_tar, G_an, G_on]"
definition P_klarjeti :: ustring where
  "P_klarjeti = [G_kan, G_las, G_an, G_rae, G_jhan, G_en, G_tan, G_in]"
definition P_tbeti :: ustring where "P_tbeti = [G_tar, G_ban, G_en, G_tan, G_in]"
definition P_oshki :: ustring where "P_oshki = [G_on, G_shin, G_kan, G_in]"
definition P_khakhuli :: ustring where "P_khakhuli = [G_xan, G_an, G_xan, G_un, G_las, G_in]"

lemmas place_defs =
  P_mtskheta_def P_tbilisi_def P_kutaisi_def P_batumi_def P_khani_def P_svaneti_def
  P_imereti_def P_kakheti_def P_samegrelo_def P_guria_def P_achara_def P_tao_def
  P_klarjeti_def P_tbeti_def P_oshki_def P_khakhuli_def

definition known_places :: "ustring list" where
  "known_places =
    [P_mtskheta, P_tbilisi, P_kutaisi, P_batumi, P_khani,
     P_svaneti, P_imereti, P_kakheti, P_samegrelo, P_guria,
     P_achara, P_tao, P_klarjeti, P_tbeti, P_oshki, P_khakhuli]"

text \<open>
  \<open>is_patronymic\<close> is defined twice in the class (lines 268 and 317) with the same body;
  the second binding is the one in effect.
\<close>

definition is_patronymic :: "ustring \<Rightarrow> bool" where
  "is_patronymic name = list_ex (endswith name) patronymic_endings"

text \<open>
  \<open>is_actual_place\<close>: the two loops return False at the first ending that matches, then
  the allow-list decides; anything else is not a place.
\<close>

definition is_actual_place :: "ustring \<Rightarrow> bool" where
  "is_actual_place name =
    (if list_ex (endswith name) patronymic_endings then False
     else if list_ex (endswith name) surname_endings then False
     else if List.member known_places name then True
     else False)"

section \<open>Classifier properties\<close>

lemma endswith_Nil [simp]: "endswith s [] = True"
  by (simp add: endswith_def)

lemma endswith_eval: "endswith s e = prefix (rev e) (rev s)"
  by (simp add: endswith_def suffix_to_prefix)

text \<open>
  C3: whatever token \<open>is_patronymic\<close> accepts, \<open>is_actual_place\<close> rejects: the place test
  runs through the same endings first.
\<close>

theorem patronymic_not_place:
  "is_patronymic t \<Longrightarrow> is_actual_place t = False"
  by (simp add: is_patronymic_def is_actual_place_def)

theorem patronymic_not_place_witness:
  "is_patronymic P_svaneti \<and> is_actual_place P_svaneti = False"
proof -
  have h: "is_patronymic P_svaneti"
    by (simp add: is_patronymic_def patronymic_endings_def P_svaneti_def endswith_eval)
  from patronymic_not_place [OF h] h show ?thesis by simp
qed

end
